theory Spec2Isabelle
  imports Main "HOL-Library.AList"
begin

section \<open>Data model\<close>

text \<open>
  The client of \<^verbatim>\<open>d2s_qgis_client.py\<close> is embedded with explicit state passing.
  Parsed JSON is a datatype; an object keeps its pairs in the order of the document and a
  later pair for the same key wins, as in Python's \<^verbatim>\<open>json\<close> module. A number
  written as an integer is a Python \<^verbatim>\<open>int\<close>; any other number is a Python
  \<^verbatim>\<open>float\<close>: a finite one is \<open>m * 2 ^ e\<close> for a mantissa \<open>m\<close> and an exponent \<open>e\<close>,
  and the parser also yields the two infinities and NaN.
\<close>

datatype pyfloat =
    FloatDyadic int int
  | FloatInf bool
  | FloatNaN

datatype json =
    JNull
  | JBool bool
  | JInt int
  | JFloat pyfloat
  | JStr string
  | JArr "json list"
  | JObj "(string \<times> json) list"

text \<open>The exceptions the code can end with, as values.\<close>

datatype error =
    ValueError string
  | HTTPError int
  | RequestException
  | JSONDecodeError
  | TypeError
  | KeyError
  | IndexError
  | AttributeError
  | CookieConflictError

text \<open>
  A cookie of a jar. \<^verbatim>\<open>cookies.set(name, value, domain=..., path=...)\<close> creates one,
  and \<open>cookie_domain = None\<close> is then a call without the \<^verbatim>\<open>domain\<close> keyword; the
  HTTP library creates one from a \<^verbatim>\<open>Set-Cookie\<close> header, with the domain and the path
  it derives from the header and the request. The value is a string, or \<^verbatim>\<open>None\<close> for
  a header that names the cookie without \<^verbatim>\<open>=\<close>.
\<close>

record cookie =
  cookie_name :: string
  cookie_value :: "string option"
  cookie_domain :: "string option"
  cookie_path :: string

text \<open>
  A \<^verbatim>\<open>requests.Session\<close>: its cookie jar, and the \<^verbatim>\<open>api_key\<close> attribute that
  \<^verbatim>\<open>login\<close> may attach.
\<close>

record session =
  cookies :: "cookie list"
  api_key :: "json option"

datatype http_method = GET | POST

text \<open>
  One HTTP request as the code issues it: \<open>req_params\<close> is the \<^verbatim>\<open>params\<close> keyword
  (None when the call passes none), \<open>req_data\<close> the form body. Which cookies go on the
  wire is the library's choice and not part of the request the code makes.
\<close>

record request =
  req_method :: http_method
  req_url :: string
  req_params :: "(string \<times> bool) list option"
  req_data :: "(string \<times> string) list"

text \<open>
  A response: \<open>resp_cookies\<close> is the jar \<^verbatim>\<open>response.cookies\<close> in the order it is
  iterated, with the values as that jar keeps them; it may hold several cookies of one
  name (under different domains or paths). \<open>body\<close> is the parsed body, None when it is
  not JSON.
\<close>

record response =
  status_code :: int
  resp_cookies :: "cookie list"
  body :: "json option"

text \<open>
  While it performs a request for a session, the HTTP library changes that session's jar
  on its own: it stores the cookies of the responses it receives (of every redirect hop
  too) and deletes the cookie a response expires, named by domain, path and name. A
  reply of the environment is the response handed to the code, or a transport failure,
  each with the changes the library has made to the jar by then, in order.
\<close>

datatype jar_op = Store cookie | Expire string string string

datatype reply = Reply response "jar_op list" | Failure "jar_op list"

text \<open>
  An \<^verbatim>\<open>APIClient\<close> object: its two attributes never change after construction, the
  session is held by reference.
\<close>

record api_client =
  client_base_url :: string
  client_session :: nat

text \<open>
  A value an attribute of a resource object can hold: a field of the server's JSON, or the
  reference to the API client. A resource object is its class and its \<^verbatim>\<open>__dict__\<close>,
  an insertion-ordered dictionary.
\<close>

datatype pyval = PJson json | PClient api_client

datatype resource_class = ProjectClass | FlightClass | DataProductClass

record pyobject =
  obj_class :: resource_class
  obj_dict :: "(string \<times> pyval) list"

text \<open>
  \<^verbatim>\<open>ProjectCollection\<close>, \<^verbatim>\<open>FlightCollection\<close> and \<^verbatim>\<open>DataProductCollection\<close>: each
  has the one attribute \<^verbatim>\<open>collection\<close>.
\<close>

record collection =
  collection :: "pyobject list"

text \<open>
  What lies outside the repository is a parameter: the server, the network and the HTTP
  library's cookie handling, as a function from the requests sent so far (the current one
  last) to a reply;
  \<^verbatim>\<open>urlparse(url).hostname\<close>, which the code reads only after a request to the same
  base URL was answered, so it is taken to return; and Python's \<^verbatim>\<open>str\<close> of an attribute
  value inside an f-string.
\<close>

record env =
  transport :: "request list \<Rightarrow> reply"
  urlparse_hostname :: "string \<Rightarrow> string option"
  py_str :: "pyval \<Rightarrow> string"

text \<open>
  Sessions are shared objects (\<^verbatim>\<open>Auth\<close>, \<^verbatim>\<open>APIClient\<close> and \<^verbatim>\<open>Workspace\<close> hold
  the same one), so they live in a store addressed by reference. \<open>trace\<close> lists the
  requests sent, oldest first.
\<close>

record world =
  sessions :: "nat \<Rightarrow> session"
  next_ref :: nat
  trace :: "request list"

section \<open>The cookie jar and the HTTP calls\<close>

text \<open>
  A jar holds one cookie for each domain, path and name; a missing domain is the empty one.
  The code reads a session's jar only with \<^verbatim>\<open>any(...)\<close> over its cookies, so the order
  in which the list keeps them is not observable.
\<close>

definition domain_key :: "cookie \<Rightarrow> string" where
  "domain_key c = (case cookie_domain c of None \<Rightarrow> [] | Some d \<Rightarrow> d)"

definition same_slot :: "cookie \<Rightarrow> cookie \<Rightarrow> bool" where
  "same_slot c d =
     (cookie_name c = cookie_name d \<and> cookie_path c = cookie_path d \<and> domain_key c = domain_key d)"

fun set_cookie :: "cookie \<Rightarrow> cookie list \<Rightarrow> cookie list" where
  "set_cookie c [] = [c]"
| "set_cookie c (d # ds) = (if same_slot c d then c # ds else d # set_cookie c ds)"

text \<open>
  The value a \<^verbatim>\<open>RequestsCookieJar\<close> keeps for a cookie it is given: when the value
  starts and ends with a double quote, every backslash followed by a double quote is
  dropped from it (\<^verbatim>\<open>value.replace('\\"', '')\<close>); any other value is kept as it is.
\<close>

fun remove_escaped_quotes :: "string \<Rightarrow> string" where
  "remove_escaped_quotes (a # b # cs) =
     (if a = CHR 0x5C \<and> b = CHR 0x22 then remove_escaped_quotes cs
      else a # remove_escaped_quotes (b # cs))"
| "remove_escaped_quotes cs = cs"

definition cookie_jar_value :: "string \<Rightarrow> string" where
  "cookie_jar_value v =
     (if take 1 v = [CHR 0x22] \<and> take 1 (rev v) = [CHR 0x22] then remove_escaped_quotes v
      else v)"

text \<open>
  \<^verbatim>\<open>session.cookies.set(name, value, domain=..., path=...)\<close> on the session at \<open>s\<close>,
  for a string \<open>value\<close>.
\<close>

definition cookies_set :: "nat \<Rightarrow> string \<Rightarrow> string \<Rightarrow> string option \<Rightarrow> string \<Rightarrow> world \<Rightarrow> world" where
  "cookies_set s n v d p w =
     w\<lparr>sessions := (sessions w)
         (s := (sessions w s)\<lparr>cookies :=
            set_cookie \<lparr>cookie_name = n, cookie_value = Some (cookie_jar_value v),
                        cookie_domain = d, cookie_path = p\<rparr>
              (cookies (sessions w s))\<rparr>)\<rparr>"

text \<open>\<^verbatim>\<open>session.cookies.clear()\<close>.\<close>

definition cookies_clear :: "nat \<Rightarrow> world \<Rightarrow> world" where
  "cookies_clear s w = w\<lparr>sessions := (sessions w)(s := (sessions w s)\<lparr>cookies := []\<rparr>)\<rparr>"

text \<open>\<^verbatim>\<open>any(cookie.name == n for cookie in session.cookies)\<close>.\<close>

definition has_cookie_named :: "string \<Rightarrow> cookie list \<Rightarrow> bool" where
  "has_cookie_named n jar = list_ex (\<lambda>c. cookie_name c = n) jar"

text \<open>
  Reading a jar by name, as the library's \<^verbatim>\<open>RequestsCookieJar\<close> does. The subscript
  \<^verbatim>\<open>jar[n]\<close> is \<^verbatim>\<open>_find_no_duplicates\<close>: it walks the jar with the value to return,
  at first \<^verbatim>\<open>None\<close>; at a cookie of the name it raises \<^verbatim>\<open>CookieConflictError\<close> when
  the value to return is not \<^verbatim>\<open>None\<close> any more, and takes the cookie's value
  otherwise; at the end it returns that value when it is a non-empty string and raises
  \<^verbatim>\<open>KeyError\<close> when it is not. \<^verbatim>\<open>n in jar\<close> is the subscript with \<^verbatim>\<open>KeyError\<close>
  read as False and a conflict read as True.
\<close>

fun find_no_duplicates :: "string \<Rightarrow> cookie list \<Rightarrow> string option \<Rightarrow> error + string option" where
  "find_no_duplicates n [] toReturn = Inr toReturn"
| "find_no_duplicates n (c # cs) toReturn =
     (if cookie_name c = n
      then (if toReturn \<noteq> None then Inl CookieConflictError
            else find_no_duplicates n cs (cookie_value c))
      else find_no_duplicates n cs toReturn)"

definition jar_getitem :: "cookie list \<Rightarrow> string \<Rightarrow> error + string" where
  "jar_getitem jar n =
     (case find_no_duplicates n jar None of
        Inl err \<Rightarrow> Inl err
      | Inr None \<Rightarrow> Inl KeyError
      | Inr (Some v) \<Rightarrow> if v = [] then Inl KeyError else Inr v)"

definition jar_contains :: "string \<Rightarrow> cookie list \<Rightarrow> bool" where
  "jar_contains n jar =
     (case jar_getitem jar n of
        Inl err \<Rightarrow> (if err = KeyError then False else True)
      | Inr v \<Rightarrow> True)"

text \<open>
  The library's own changes to a jar: a stored cookie replaces the one in its slot, an
  expiry deletes the cookie of that domain, path and name if there is one.
\<close>

fun apply_op :: "jar_op \<Rightarrow> cookie list \<Rightarrow> cookie list" where
  "apply_op (Store c) jar = set_cookie c jar"
| "apply_op (Expire d p n) jar =
     filter (\<lambda>c. \<not> (domain_key c = d \<and> cookie_path c = p \<and> cookie_name c = n)) jar"

definition apply_ops :: "jar_op list \<Rightarrow> cookie list \<Rightarrow> cookie list" where
  "apply_ops ops jar = fold apply_op ops jar"

text \<open>The two parts of a reply: what the call returns or raises, and the jar changes.\<close>

fun reply_result :: "reply \<Rightarrow> error + response" where
  "reply_result (Reply r ops) = Inr r"
| "reply_result (Failure ops) = Inl RequestException"

fun reply_ops :: "reply \<Rightarrow> jar_op list" where
  "reply_ops (Reply r ops) = ops"
| "reply_ops (Failure ops) = ops"

text \<open>
  \<^verbatim>\<open>extract_cookies_to_jar\<close> of the library, on the jar of the session at \<open>s\<close>.
\<close>

definition extract_cookies_to_jar :: "nat \<Rightarrow> jar_op list \<Rightarrow> world \<Rightarrow> world" where
  "extract_cookies_to_jar s ops w =
     w\<lparr>sessions := (sessions w)
         (s := (sessions w s)\<lparr>cookies := apply_ops ops (cookies (sessions w s))\<rparr>)\<rparr>"

text \<open>Sending a request: it is appended to the trace and the environment answers.\<close>

definition send :: "env \<Rightarrow> request \<Rightarrow> world \<Rightarrow> reply \<times> world" where
  "send e rq w =
     (let w' = w\<lparr>trace := trace w @ [rq]\<rparr>
      in (transport e (trace w'), w'))"

text \<open>
  \<^verbatim>\<open>requests.post(url, data=credentials)\<close>: the library uses a session of its own, so no
  jar of the program changes.
\<close>

definition requests_post :: "env \<Rightarrow> string \<Rightarrow> (string \<times> string) list \<Rightarrow> world \<Rightarrow> (error + response) \<times> world" where
  "requests_post e url credentials w =
     (case send e \<lparr>req_method = POST, req_url = url, req_params = None,
                    req_data = credentials\<rparr> w of
        (rep, w') \<Rightarrow> (reply_result rep, w'))"

text \<open>
  \<^verbatim>\<open>session.get(url, **kwargs)\<close> and \<^verbatim>\<open>session.post(url)\<close>: the library also applies
  the reply's jar changes to the session's jar, whether the call returns or raises.
\<close>

definition session_get :: "env \<Rightarrow> nat \<Rightarrow> string \<Rightarrow> (string \<times> bool) list option \<Rightarrow> world \<Rightarrow> (error + response) \<times> world" where
  "session_get e s url kwargs w =
     (case send e \<lparr>req_method = GET, req_url = url, req_params = kwargs, req_data = []\<rparr> w of
        (rep, w') \<Rightarrow> (reply_result rep, extract_cookies_to_jar s (reply_ops rep) w'))"

definition session_post :: "env \<Rightarrow> nat \<Rightarrow> string \<Rightarrow> world \<Rightarrow> (error + response) \<times> world" where
  "session_post e s url w =
     (case send e \<lparr>req_method = POST, req_url = url, req_params = None, req_data = []\<rparr> w of
        (rep, w') \<Rightarrow> (reply_result rep, extract_cookies_to_jar s (reply_ops rep) w'))"

text \<open>\<^verbatim>\<open>response.raise_for_status()\<close> and \<^verbatim>\<open>response.json()\<close>.\<close>

definition raise_for_status :: "response \<Rightarrow> error + unit" where
  "raise_for_status r =
     (if 400 \<le> status_code r \<and> status_code r < 600 then Inl (HTTPError (status_code r))
      else Inr ())"

definition response_json :: "response \<Rightarrow> error + json" where
  "response_json r = (case body r of None \<Rightarrow> Inl JSONDecodeError | Some j \<Rightarrow> Inr j)"

section \<open>Python values\<close>

text \<open>Truth value of a parsed JSON value.\<close>

fun truthy :: "json \<Rightarrow> bool" where
  "truthy JNull = False"
| "truthy (JBool b) = b"
| "truthy (JInt i) = (i \<noteq> 0)"
| "truthy (JFloat (FloatDyadic m ex)) = (m \<noteq> 0)"
| "truthy (JFloat (FloatInf neg)) = True"
| "truthy (JFloat FloatNaN) = True"
| "truthy (JStr s) = (s \<noteq> [])"
| "truthy (JArr xs) = (xs \<noteq> [])"
| "truthy (JObj kvs) = (kvs \<noteq> [])"

fun contains_str :: "string \<Rightarrow> string \<Rightarrow> bool" where
  "contains_str k [] = (k = [])"
| "contains_str k (c # cs) = (take (length k) (c # cs) = k \<or> contains_str k cs)"

text \<open>\<^verbatim>\<open>k in v\<close> and \<^verbatim>\<open>v[k]\<close> for a string \<open>k\<close>.\<close>

fun json_contains :: "string \<Rightarrow> json \<Rightarrow> error + bool" where
  "json_contains k (JObj kvs) = Inr (map_of (rev kvs) k \<noteq> None)"
| "json_contains k (JArr xs) = Inr (JStr k \<in> set xs)"
| "json_contains k (JStr s) = Inr (contains_str k s)"
| "json_contains k v = Inl TypeError"

fun json_getitem :: "json \<Rightarrow> string \<Rightarrow> error + json" where
  "json_getitem (JObj kvs) k = (case map_of (rev kvs) k of None \<Rightarrow> Inl KeyError | Some v \<Rightarrow> Inr v)"
| "json_getitem v k = Inl TypeError"

text \<open>Decimal rendering of an integer, for the f-string that carries a status code.\<close>

definition digit_char :: "nat \<Rightarrow> char" where
  "digit_char d = char_of (48 + d)"

function str_nat :: "nat \<Rightarrow> string" where
  "str_nat n = (if n < 10 then [digit_char n] else str_nat (n div 10) @ [digit_char (n mod 10)])"
  by pat_completeness auto
termination
  by (relation "measure id") auto

declare str_nat.simps [simp del]

definition str_int :: "int \<Rightarrow> string" where
  "str_int i = (if i < 0 then CHR ''-'' # str_nat (nat (- i)) else str_nat (nat i))"

section \<open>Auth\<close>

record auth =
  auth_base_url :: string
  auth_session :: nat

text \<open>\<^verbatim>\<open>base_url.rstrip('/')\<close>.\<close>

definition rstrip_slash :: "string \<Rightarrow> string" where
  "rstrip_slash s = rev (dropWhile (\<lambda>c. c = CHR ''/'') (rev s))"

text \<open>\<^verbatim>\<open>Auth.__init__\<close>: a fresh, empty session is allocated.\<close>

definition Auth_init :: "string \<Rightarrow> world \<Rightarrow> auth \<times> world" where
  "Auth_init base_url w =
     (\<lparr>auth_base_url = rstrip_slash base_url, auth_session = next_ref w\<rparr>,
      w\<lparr>sessions := (sessions w)(next_ref w := \<lparr>cookies = [], api_key = None\<rparr>),
        next_ref := Suc (next_ref w)\<rparr>)"

text \<open>\<^verbatim>\<open>urlparse(base_url).hostname or ""\<close>.\<close>

definition host_of :: "env \<Rightarrow> string \<Rightarrow> string" where
  "host_of e base_url = (case urlparse_hostname e base_url of None \<Rightarrow> [] | Some h \<Rightarrow> h)"

text \<open>
  The block of \<^verbatim>\<open>login\<close> that stores the API key:
  \<^verbatim>\<open>if "api_access_token" in user_data and user_data["api_access_token"]: ...\<close>.
\<close>

definition store_api_key :: "nat \<Rightarrow> json \<Rightarrow> world \<Rightarrow> error + world" where
  "store_api_key s user_data w =
     (case json_contains ''api_access_token'' user_data of
        Inl err \<Rightarrow> Inl err
      | Inr False \<Rightarrow> Inr w
      | Inr True \<Rightarrow>
          (case json_getitem user_data ''api_access_token'' of
             Inl err \<Rightarrow> Inl err
           | Inr v \<Rightarrow>
               if truthy v
               then Inr (w\<lparr>sessions := (sessions w)(s := (sessions w s)\<lparr>api_key := Some v\<rparr>)\<rparr>)
               else Inr w))"

text \<open>
  \<^verbatim>\<open>Auth.login\<close>. The result is the reference of the session returned, or the exception
  raised. The three \<^verbatim>\<open>ValueError\<close>s are what the specification calls AuthError.
\<close>

definition login :: "env \<Rightarrow> auth \<Rightarrow> string \<Rightarrow> string \<Rightarrow> world \<Rightarrow> (error + nat) \<times> world" where
  "login e self email password w =
     (let credentials = [(''username'', email), (''password'', password)];
          url = auth_base_url self @ ''/api/v1/auth/access-token''
      in case requests_post e url credentials w of
           (Inl err, w1) \<Rightarrow> (Inl err, w1)
         | (Inr response, w1) \<Rightarrow>
             if status_code response = 200
                \<and> jar_contains ''access_token'' (resp_cookies response)
             then (let host = host_of e (auth_base_url self)
                   in case jar_getitem (resp_cookies response) ''access_token'' of
                        Inl err \<Rightarrow> (Inl err, w1)
                      | Inr token_value \<Rightarrow>
                          (let w2 = (if host = ''localhost'' \<or> host = ''127.0.0.1''
                                     then cookies_set (auth_session self) ''access_token''
                                            token_value None ''/'' w1
                                     else cookies_set (auth_session self) ''access_token''
                                            token_value (Some host) ''/'' w1)
                           in case (if jar_contains ''refresh_token'' (resp_cookies response)
                                    then (case jar_getitem (resp_cookies response)
                                                 ''refresh_token'' of
                                            Inl err \<Rightarrow> Inl err
                                          | Inr refresh_value \<Rightarrow>
                                              Inr (if host = ''localhost'' \<or> host = ''127.0.0.1''
                                                   then cookies_set (auth_session self)
                                                          ''refresh_token'' refresh_value None
                                                          ''/'' w2
                                                   else cookies_set (auth_session self)
                                                          ''refresh_token'' refresh_value
                                                          (Some host) ''/'' w2))
                                    else Inr w2) of
                                Inl err \<Rightarrow> (Inl err, w2)
                              | Inr w3 \<Rightarrow>
                                  (case session_get e (auth_session self)
                                          (auth_base_url self @ ''/api/v1/users/current'')
                                          None w3 of
                                     (Inl err, w4) \<Rightarrow> (Inl err, w4)
                                   | (Inr user_response, w4) \<Rightarrow>
                                       if status_code user_response = 200
                                       then (case response_json user_response of
                                               Inl err \<Rightarrow> (Inl err, w4)
                                             | Inr user_data \<Rightarrow>
                                                 (case store_api_key (auth_session self)
                                                         user_data w4 of
                                                    Inl err \<Rightarrow> (Inl err, w4)
                                                  | Inr w5 \<Rightarrow> (Inr (auth_session self), w5)))
                                       else (Inl (ValueError
                                                    ''Failed to fetch user information''),
                                             w4))))
             else if status_code response = 401
             then (Inl (ValueError ''Authentication failed. Check your email and password.''), w1)
             else (Inl (ValueError (''Login failed with status '' @ str_int (status_code response))),
                   w1))"

section \<open>APIClient\<close>

text \<open>
  \<^verbatim>\<open>APIClient.__init__\<close>. Its \<^verbatim>\<open>ValueError\<close> is what the specification calls
  ConfigError.
\<close>

definition APIClient_init :: "string \<Rightarrow> nat \<Rightarrow> world \<Rightarrow> (error + api_client) \<times> world" where
  "APIClient_init base_url s w =
     (if \<not> has_cookie_named ''access_token'' (cookies (sessions w s))
      then (Inl (ValueError ''Session missing access token. Must sign in first.''), w)
      else (Inr \<lparr>client_base_url = base_url, client_session = s\<rparr>, w))"

text \<open>
  The body of the \<^verbatim>\<open>try\<close> in \<^verbatim>\<open>_refresh_access_token\<close>: what it returns, or the
  exception that leaves it.
\<close>

definition refresh_try :: "env \<Rightarrow> api_client \<Rightarrow> string \<Rightarrow> world \<Rightarrow> (error + bool) \<times> world" where
  "refresh_try e self url w =
     (case session_post e (client_session self) url w of
        (Inl err, w1) \<Rightarrow> (Inl err, w1)
      | (Inr response, w1) \<Rightarrow>
          if status_code response = 200
          then (let host = host_of e (client_base_url self)
                in case (if jar_contains ''access_token'' (resp_cookies response)
                         then (case jar_getitem (resp_cookies response) ''access_token'' of
                                 Inl err \<Rightarrow> Inl err
                               | Inr v \<Rightarrow>
                                   Inr (if host = ''localhost'' \<or> host = ''127.0.0.1''
                                        then cookies_set (client_session self) ''access_token''
                                               v None ''/'' w1
                                        else cookies_set (client_session self) ''access_token''
                                               v (Some host) ''/'' w1))
                         else Inr w1) of
                     Inl err \<Rightarrow> (Inl err, w1)
                   | Inr w2 \<Rightarrow>
                       (case (if jar_contains ''refresh_token'' (resp_cookies response)
                              then (case jar_getitem (resp_cookies response) ''refresh_token'' of
                                      Inl err \<Rightarrow> Inl err
                                    | Inr v \<Rightarrow>
                                        Inr (if host = ''localhost'' \<or> host = ''127.0.0.1''
                                             then cookies_set (client_session self)
                                                    ''refresh_token'' v None ''/'' w2
                                             else cookies_set (client_session self)
                                                    ''refresh_token'' v (Some host) ''/'' w2))
                              else Inr w2) of
                          Inl err \<Rightarrow> (Inl err, w2)
                        | Inr w3 \<Rightarrow> (Inr True, w3)))
          else (Inr False, w1))"

text \<open>\<^verbatim>\<open>APIClient._refresh_access_token\<close>; \<^verbatim>\<open>except Exception: return False\<close>.\<close>

definition refresh_access_token :: "env \<Rightarrow> api_client \<Rightarrow> world \<Rightarrow> bool \<times> world" where
  "refresh_access_token e self w =
     (if \<not> has_cookie_named ''refresh_token'' (cookies (sessions w (client_session self)))
      then (False, w)
      else (let url = client_base_url self @ ''/api/v1/auth/refresh-token''
            in case refresh_try e self url w of
                 (Inl err, w1) \<Rightarrow> (False, w1)
               | (Inr b, w1) \<Rightarrow> (b, w1)))"

text \<open>
  The last two lines of \<^verbatim>\<open>make_get_request\<close>, run on the response that is current
  there: \<^verbatim>\<open>response.raise_for_status(); return response.json()\<close>.
\<close>

definition finish_get :: "response \<Rightarrow> error + json" where
  "finish_get r = (case raise_for_status r of Inl err \<Rightarrow> Inl err | Inr u \<Rightarrow> response_json r)"

text \<open>
  \<^verbatim>\<open>APIClient.make_get_request\<close>. The \<^verbatim>\<open>ValueError\<close> after a failed refresh is what
  the specification calls SessionExpiredError.
\<close>

definition make_get_request ::
    "env \<Rightarrow> api_client \<Rightarrow> string \<Rightarrow> (string \<times> bool) list option \<Rightarrow> world \<Rightarrow> (error + json) \<times> world" where
  "make_get_request e self endpoint kwargs w =
     (let url = client_base_url self @ endpoint
      in case session_get e (client_session self) url kwargs w of
           (Inl err, w1) \<Rightarrow> (Inl err, w1)
         | (Inr response, w1) \<Rightarrow>
             if status_code response = 401 \<and> endpoint \<noteq> ''/api/v1/auth/refresh-token''
             then (case refresh_access_token e self w1 of
                     (True, w2) \<Rightarrow>
                       (case session_get e (client_session self) url kwargs w2 of
                          (Inl err, w3) \<Rightarrow> (Inl err, w3)
                        | (Inr response2, w3) \<Rightarrow> (finish_get response2, w3))
                   | (False, w2) \<Rightarrow>
                       (Inl (ValueError ''Session expired. Please login again.''),
                        cookies_clear (client_session self) w2))
             else (finish_get response, w1))"

section \<open>The resource hierarchy\<close>

record workspace =
  ws_api_key :: string
  ws_base_url :: string
  ws_session :: nat
  ws_client :: api_client

text \<open>\<^verbatim>\<open>Workspace.__init__\<close>.\<close>

definition Workspace_init :: "string \<Rightarrow> nat \<Rightarrow> string \<Rightarrow> world \<Rightarrow> (error + workspace) \<times> world" where
  "Workspace_init base_url s key w =
     (case APIClient_init base_url s w of
        (Inl err, w1) \<Rightarrow> (Inl err, w1)
      | (Inr c, w1) \<Rightarrow>
          (Inr \<lparr>ws_api_key = key, ws_base_url = base_url, ws_session = s, ws_client = c\<rparr>, w1))"

text \<open>\<^verbatim>\<open>self.__dict__.update(kwargs)\<close>: the pairs are stored in order.\<close>

definition dict_update :: "(string \<times> pyval) list \<Rightarrow> (string \<times> json) list \<Rightarrow> (string \<times> pyval) list" where
  "dict_update d kwargs = fold (\<lambda>kv. AList.update (fst kv) (PJson (snd kv))) kwargs d"

text \<open>
  The constructor bodies. \<open>kwargs\<close> is the dictionary Python has bound to \<^verbatim>\<open>**kwargs\<close>.
\<close>

definition Project_init :: "api_client \<Rightarrow> (string \<times> json) list \<Rightarrow> pyobject" where
  "Project_init client kwargs =
     \<lparr>obj_class = ProjectClass,
      obj_dict = dict_update (AList.update ''client'' (PClient client) []) kwargs\<rparr>"

definition DataProduct_init :: "api_client \<Rightarrow> (string \<times> json) list \<Rightarrow> pyobject" where
  "DataProduct_init client kwargs =
     \<lparr>obj_class = DataProductClass,
      obj_dict = dict_update (AList.update ''client'' (PClient client) []) kwargs\<rparr>"

text \<open>\<^verbatim>\<open>s.split(sep)\<close> for a one-character separator, and \<^verbatim>\<open>xs[0]\<close>.\<close>

fun split_char :: "char \<Rightarrow> string \<Rightarrow> string list" where
  "split_char sep [] = [[]]"
| "split_char sep (c # cs) =
     (if c = sep then [] # split_char sep cs
      else (case split_char sep cs of
              [] \<Rightarrow> [[c]]
            | p # ps \<Rightarrow> (c # p) # ps))"

definition first_item :: "'a list \<Rightarrow> error + 'a" where
  "first_item xs = (case xs of [] \<Rightarrow> Inl IndexError | x # _ \<Rightarrow> Inr x)"

text \<open>Truth value of an attribute value; an object without \<^verbatim>\<open>__bool__\<close> is true.\<close>

fun pyval_truthy :: "pyval \<Rightarrow> bool" where
  "pyval_truthy (PJson v) = truthy v"
| "pyval_truthy (PClient c) = True"

text \<open>
  \<^verbatim>\<open>Flight.__init__\<close>: the same two statements, then the normalisation of
  \<^verbatim>\<open>acquisition_date\<close> under \<^verbatim>\<open>hasattr\<close>, truth and \<^verbatim>\<open>isinstance(..., str)\<close>.
\<close>

definition Flight_init :: "api_client \<Rightarrow> (string \<times> json) list \<Rightarrow> error + pyobject" where
  "Flight_init client kwargs =
     (let d = dict_update (AList.update ''client'' (PClient client) []) kwargs
      in case map_of d ''acquisition_date'' of
           None \<Rightarrow> Inr \<lparr>obj_class = FlightClass, obj_dict = d\<rparr>
         | Some v \<Rightarrow>
             if pyval_truthy v
             then (case v of
                     PJson (JStr s) \<Rightarrow>
                       (case first_item (split_char CHR ''T'' s) of
                          Inl err \<Rightarrow> Inl err
                        | Inr day \<Rightarrow>
                            Inr \<lparr>obj_class = FlightClass,
                                 obj_dict = AList.update ''acquisition_date'' (PJson (JStr day)) d\<rparr>)
                   | _ \<Rightarrow> Inr \<lparr>obj_class = FlightClass, obj_dict = d\<rparr>)
             else Inr \<lparr>obj_class = FlightClass, obj_dict = d\<rparr>)"

text \<open>
  The call \<^verbatim>\<open>C(self.client, **data)\<close> of a constructor with the signature
  \<^verbatim>\<open>(self, client, **kwargs)\<close>. Python binds the arguments before the body runs:
  \<^verbatim>\<open>data\<close> must be a mapping, and a key that names an already bound parameter
  (\<^verbatim>\<open>self\<close>, \<^verbatim>\<open>client\<close>) is a \<^verbatim>\<open>TypeError\<close> ("got multiple values for argument").
\<close>

definition bind_kwargs :: "json \<Rightarrow> error + (string \<times> json) list" where
  "bind_kwargs data =
     (case data of
        JObj kvs \<Rightarrow>
          if ''self'' \<in> set (map fst kvs) \<or> ''client'' \<in> set (map fst kvs) then Inl TypeError
          else Inr kvs
      | _ \<Rightarrow> Inl TypeError)"

definition new_Project :: "api_client \<Rightarrow> json \<Rightarrow> error + pyobject" where
  "new_Project client data =
     (case bind_kwargs data of Inl err \<Rightarrow> Inl err | Inr kwargs \<Rightarrow> Inr (Project_init client kwargs))"

definition new_Flight :: "api_client \<Rightarrow> json \<Rightarrow> error + pyobject" where
  "new_Flight client data =
     (case bind_kwargs data of Inl err \<Rightarrow> Inl err | Inr kwargs \<Rightarrow> Flight_init client kwargs)"

definition new_DataProduct :: "api_client \<Rightarrow> json \<Rightarrow> error + pyobject" where
  "new_DataProduct client data =
     (case bind_kwargs data of Inl err \<Rightarrow> Inl err | Inr kwargs \<Rightarrow> Inr (DataProduct_init client kwargs))"

text \<open>
  The list comprehensions \<^verbatim>\<open>[C(self.client, **x) for x in response_data]\<close>: iterating
  the parsed body, then building each element until one raises.
\<close>

fun py_iter :: "json \<Rightarrow> error + json list" where
  "py_iter (JArr xs) = Inr xs"
| "py_iter (JObj kvs) = Inr (map (\<lambda>kv. JStr (fst kv)) kvs)"
| "py_iter (JStr s) = Inr (map (\<lambda>c. JStr [c]) s)"
| "py_iter v = Inl TypeError"

fun build_all :: "(json \<Rightarrow> error + pyobject) \<Rightarrow> json list \<Rightarrow> error + pyobject list" where
  "build_all mk [] = Inr []"
| "build_all mk (x # xs) =
     (case mk x of
        Inl err \<Rightarrow> Inl err
      | Inr obj \<Rightarrow> (case build_all mk xs of Inl err \<Rightarrow> Inl err | Inr objs \<Rightarrow> Inr (obj # objs)))"

definition comprehension :: "(json \<Rightarrow> error + pyobject) \<Rightarrow> json \<Rightarrow> error + collection" where
  "comprehension mk response_data =
     (case py_iter response_data of
        Inl err \<Rightarrow> Inl err
      | Inr xs \<Rightarrow>
          (case build_all mk xs of
             Inl err \<Rightarrow> Inl err
           | Inr objs \<Rightarrow> Inr \<lparr>collection = objs\<rparr>))"

text \<open>Reading \<^verbatim>\<open>self.name\<close>, and \<^verbatim>\<open>self.client\<close> used as an API client.\<close>

definition getattr :: "pyobject \<Rightarrow> string \<Rightarrow> error + pyval" where
  "getattr self n = (case map_of (obj_dict self) n of None \<Rightarrow> Inl AttributeError | Some v \<Rightarrow> Inr v)"

definition client_of :: "pyobject \<Rightarrow> error + api_client" where
  "client_of self =
     (case map_of (obj_dict self) ''client'' of
        Some (PClient c) \<Rightarrow> Inr c
      | _ \<Rightarrow> Inl AttributeError)"

text \<open>\<^verbatim>\<open>Workspace.get_projects\<close>.\<close>

definition get_projects :: "env \<Rightarrow> workspace \<Rightarrow> bool \<Rightarrow> world \<Rightarrow> (error + collection) \<times> world" where
  "get_projects e self has_raster w =
     (let endpoint = ''/api/v1/projects'';
          params = (if has_raster then [(''has_raster'', has_raster)] else [])
      in case make_get_request e (ws_client self) endpoint (Some params) w of
           (Inl err, w1) \<Rightarrow> (Inl err, w1)
         | (Inr response_data, w1) \<Rightarrow>
             (comprehension (new_Project (ws_client self)) response_data, w1))"

text \<open>\<^verbatim>\<open>Project.get_flights\<close>.\<close>

definition get_flights :: "env \<Rightarrow> pyobject \<Rightarrow> bool \<Rightarrow> world \<Rightarrow> (error + collection) \<times> world" where
  "get_flights e self has_raster w =
     (case getattr self ''id'' of
        Inl err \<Rightarrow> (Inl err, w)
      | Inr ident \<Rightarrow>
          (let endpoint = ''/api/v1/projects/'' @ py_str e ident @ ''/flights'';
               params = (if has_raster then [(''has_raster'', has_raster)] else [])
           in case client_of self of
                Inl err \<Rightarrow> (Inl err, w)
              | Inr client \<Rightarrow>
                  (case make_get_request e client endpoint (Some params) w of
                     (Inl err, w1) \<Rightarrow> (Inl err, w1)
                   | (Inr response_data, w1) \<Rightarrow>
                       (comprehension (new_Flight client) response_data, w1))))"

text \<open>\<^verbatim>\<open>Flight.get_data_products\<close>.\<close>

definition get_data_products :: "env \<Rightarrow> pyobject \<Rightarrow> world \<Rightarrow> (error + collection) \<times> world" where
  "get_data_products e self w =
     (case getattr self ''project_id'' of
        Inl err \<Rightarrow> (Inl err, w)
      | Inr project_id \<Rightarrow>
          (case getattr self ''id'' of
             Inl err \<Rightarrow> (Inl err, w)
           | Inr ident \<Rightarrow>
               (let endpoint = ''/api/v1/projects/'' @ py_str e project_id @ ''/flights/''
                                 @ py_str e ident @ ''/data_products''
                in case client_of self of
                     Inl err \<Rightarrow> (Inl err, w)
                   | Inr client \<Rightarrow>
                       (case make_get_request e client endpoint None w of
                          (Inl err, w1) \<Rightarrow> (Inl err, w1)
                        | (Inr response_data, w1) \<Rightarrow>
                            (comprehension (new_DataProduct client) response_data, w1)))))"

section \<open>The scoping policy in the specification's words\<close>

text \<open>
  "If the target host is \<^verbatim>\<open>localhost\<close> or \<^verbatim>\<open>127.0.0.1\<close>, store cookies without a
  \<^verbatim>\<open>domain\<close> attribute; otherwise scope explicitly to the resolved hostname. Path is
  always \<^verbatim>\<open>/\<close>." These two definitions follow that sentence, not the code; the code's
  stores are compared with them.
\<close>

definition spec_scope :: "string \<Rightarrow> string option" where
  "spec_scope host = (if host = ''localhost'' \<or> host = ''127.0.0.1'' then None else Some host)"

definition spec_token_cookie :: "string \<Rightarrow> string \<Rightarrow> string \<Rightarrow> cookie" where
  "spec_token_cookie host n v =
     \<lparr>cookie_name = n, cookie_value = Some v, cookie_domain = spec_scope host,
      cookie_path = ''/''\<rparr>"

section \<open>Example environments\<close>

text \<open>
  Concrete servers, sessions and worlds on which the theorems below are run. A scripted
  server answers the \<open>n\<close>-th request of a run with the \<open>n\<close>-th reply of its script, and
  fails at the transport level once the script is used up. \<open>reply_with\<close> is an exchange
  without redirects: the library stores the cookies of the one response.
\<close>

fun scripted :: "reply list \<Rightarrow> nat \<Rightarrow> reply" where
  "scripted [] n = Failure []"
| "scripted (r # rs) 0 = r"
| "scripted (r # rs) (Suc n) = scripted rs n"

definition example_env :: "string \<Rightarrow> reply list \<Rightarrow> env" where
  "example_env host replies =
     \<lparr>transport = (\<lambda>reqs. scripted replies (length reqs - 1)),
      urlparse_hostname = (\<lambda>url. Some host),
      py_str = (\<lambda>v. case v of PJson (JInt i) \<Rightarrow> str_int i | PJson (JStr s) \<Rightarrow> s | _ \<Rightarrow> ''?'')\<rparr>"

definition example_world :: "cookie list \<Rightarrow> world" where
  "example_world jar =
     \<lparr>sessions = (\<lambda>r. \<lparr>cookies = jar, api_key = None\<rparr>), next_ref = 1, trace = []\<rparr>"

definition host_cookie :: "string \<Rightarrow> string \<Rightarrow> string \<Rightarrow> string \<Rightarrow> cookie" where
  "host_cookie d p n v =
     \<lparr>cookie_name = n, cookie_value = Some v, cookie_domain = Some d, cookie_path = p\<rparr>"

definition access_cookie :: cookie where
  "access_cookie = host_cookie ''d2s.example.org'' ''/'' ''access_token'' ''a1''"

definition refresh_cookie :: cookie where
  "refresh_cookie = host_cookie ''d2s.example.org'' ''/'' ''refresh_token'' ''r1''"

definition example_client :: api_client where
  "example_client = \<lparr>client_base_url = ''https://d2s.example.org'', client_session = 0\<rparr>"

definition example_auth :: auth where
  "example_auth = \<lparr>auth_base_url = ''https://d2s.example.org'', auth_session = 0\<rparr>"

definition local_auth :: auth where
  "local_auth = \<lparr>auth_base_url = ''http://localhost:8000'', auth_session = 0\<rparr>"

definition local_client :: api_client where
  "local_client = \<lparr>client_base_url = ''http://localhost:8000'', client_session = 0\<rparr>"

definition local_cookie :: "string \<Rightarrow> string \<Rightarrow> cookie" where
  "local_cookie n v =
     \<lparr>cookie_name = n, cookie_value = Some v, cookie_domain = None, cookie_path = ''/''\<rparr>"

definition reply_with :: "int \<Rightarrow> cookie list \<Rightarrow> json option \<Rightarrow> reply" where
  "reply_with code cs b =
     Reply \<lparr>status_code = code, resp_cookies = cs, body = b\<rparr> (map Store cs)"

section \<open>Dictionaries and strings\<close>

lemma map_of_dict_update:
  "map_of (dict_update d kwargs) k =
     (case map_of (rev kwargs) k of None \<Rightarrow> map_of d k | Some v \<Rightarrow> Some (PJson v))"
  unfolding dict_update_def
proof (induction kwargs arbitrary: d)
  case Nil
  show ?case by simp
next
  case (Cons kv kvs)
  show ?case
    by (simp add: Cons.IH update_conv' map_add_def split: option.splits)
qed

lemma split_char_takeWhile:
  "\<exists>ps. split_char sep s = takeWhile (\<lambda>c. c \<noteq> sep) s # ps"
  by (induction s) auto

lemma first_item_split_char:
  "first_item (split_char sep s) = Inr (takeWhile (\<lambda>c. c \<noteq> sep) s)"
  using split_char_takeWhile [of sep s] by (auto simp: first_item_def)

section \<open>Flight: the acquisition date\<close>

lemma Flight_init_date:
  assumes "map_of (rev kwargs) ''acquisition_date'' = Some (JStr s)"
  shows "Flight_init c kwargs =
           Inr \<lparr>obj_class = FlightClass,
                obj_dict = AList.update ''acquisition_date''
                  (PJson (JStr (takeWhile (\<lambda>x. x \<noteq> CHR ''T'') s)))
                  (dict_update (AList.update ''client'' (PClient c) []) kwargs)\<rparr>"
proof (cases "s = []")
  case True
  have "AList.update ''acquisition_date'' (PJson (JStr []))
          (dict_update (AList.update ''client'' (PClient c) []) kwargs)
        = dict_update (AList.update ''client'' (PClient c) []) kwargs"
    using assms True by (simp add: update_triv map_of_dict_update)
  then show ?thesis
    using assms True by (simp add: Flight_init_def Let_def map_of_dict_update)
next
  case False
  then show ?thesis
    using assms
    by (simp add: Flight_init_def Let_def map_of_dict_update first_item_split_char)
qed

text \<open>
  C7. For every flight built from server fields in which \<^verbatim>\<open>acquisition_date\<close> is a
  string \<open>s\<close>, construction succeeds and the stored \<^verbatim>\<open>acquisition_date\<close> is \<open>s\<close> cut
  before its first \<^verbatim>\<open>T\<close>: it contains no \<^verbatim>\<open>T\<close>, and \<open>s\<close> is that prefix followed by
  the part from the first \<^verbatim>\<open>T\<close> on. So \<^verbatim>\<open>2024-06-10T12:34:56\<close> is stored as
  \<^verbatim>\<open>2024-06-10\<close>, and \<^verbatim>\<open>2024-06-10\<close> is stored unchanged.
\<close>

theorem flight_acquisition_date_normalised:
  assumes "map_of (rev kwargs) ''acquisition_date'' = Some (JStr s)"
  shows "\<exists>obj. Flight_init c kwargs = Inr obj
           \<and> getattr obj ''acquisition_date''
               = Inr (PJson (JStr (takeWhile (\<lambda>x. x \<noteq> CHR ''T'') s)))
           \<and> CHR ''T'' \<notin> set (takeWhile (\<lambda>x. x \<noteq> CHR ''T'') s)
           \<and> s = takeWhile (\<lambda>x. x \<noteq> CHR ''T'') s @ dropWhile (\<lambda>x. x \<noteq> CHR ''T'') s"
proof -
  have "CHR ''T'' \<notin> set (takeWhile (\<lambda>x. x \<noteq> CHR ''T'') s)"
    by (auto dest: set_takeWhileD)
  then show ?thesis
    using Flight_init_date [OF assms, of c]
    by (simp add: getattr_def update_conv')
qed

theorem flight_acquisition_date_normalised_witness:
  "(\<exists>obj. Flight_init \<lparr>client_base_url = ''https://d2s.example.org'', client_session = 0\<rparr>
            [(''id'', JInt 7), (''acquisition_date'', JStr ''2024-06-10T12:34:56'')] = Inr obj
         \<and> getattr obj ''acquisition_date'' = Inr (PJson (JStr ''2024-06-10'')))
   \<and> (\<exists>obj. Flight_init \<lparr>client_base_url = ''https://d2s.example.org'', client_session = 0\<rparr>
            [(''id'', JInt 7), (''acquisition_date'', JStr ''2024-06-10'')] = Inr obj
         \<and> getattr obj ''acquisition_date'' = Inr (PJson (JStr ''2024-06-10'')))"
  using flight_acquisition_date_normalised
          [of "[(''id'', JInt 7), (''acquisition_date'', JStr ''2024-06-10T12:34:56'')]"
              "''2024-06-10T12:34:56''"
              "\<lparr>client_base_url = ''https://d2s.example.org'', client_session = 0\<rparr>"]
        flight_acquisition_date_normalised
          [of "[(''id'', JInt 7), (''acquisition_date'', JStr ''2024-06-10'')]"
              "''2024-06-10''"
              "\<lparr>client_base_url = ''https://d2s.example.org'', client_session = 0\<rparr>"]
  by simp

section \<open>Constructing a client\<close>

lemma has_cookie_named_iff:
  "has_cookie_named n jar \<longleftrightarrow> (\<exists>c \<in> set jar. cookie_name c = n)"
  by (simp add: has_cookie_named_def list_ex_iff)

text \<open>
  C3. Building an \<^verbatim>\<open>APIClient\<close>, directly or through \<^verbatim>\<open>Workspace\<close>, from a session
  whose jar has no cookie named \<^verbatim>\<open>access_token\<close> raises the \<^verbatim>\<open>ValueError\<close> for a
  missing access token and leaves the world as it was; with such a cookie it returns the
  object, again with the world as it was. In both cases no request is added to the trace.
\<close>

theorem client_construction_needs_access_token:
  "(\<not> (\<exists>c \<in> set (cookies (sessions w s)). cookie_name c = ''access_token'') \<longrightarrow>
      APIClient_init base_url s w
        = (Inl (ValueError ''Session missing access token. Must sign in first.''), w)
    \<and> Workspace_init base_url s key w
        = (Inl (ValueError ''Session missing access token. Must sign in first.''), w))
   \<and> ((\<exists>c \<in> set (cookies (sessions w s)). cookie_name c = ''access_token'') \<longrightarrow>
      APIClient_init base_url s w = (Inr \<lparr>client_base_url = base_url, client_session = s\<rparr>, w)
    \<and> Workspace_init base_url s key w
        = (Inr \<lparr>ws_api_key = key, ws_base_url = base_url, ws_session = s,
                ws_client = \<lparr>client_base_url = base_url, client_session = s\<rparr>\<rparr>, w))
   \<and> trace (snd (APIClient_init base_url s w)) = trace w
   \<and> trace (snd (Workspace_init base_url s key w)) = trace w"
  by (simp add: APIClient_init_def Workspace_init_def has_cookie_named_iff)

theorem client_construction_needs_access_token_witness:
  "fst (APIClient_init ''https://d2s.example.org'' 0
     \<lparr>sessions = (\<lambda>r. \<lparr>cookies = [], api_key = None\<rparr>), next_ref = 1, trace = []\<rparr>)
     = Inl (ValueError ''Session missing access token. Must sign in first.'')
   \<and> fst (Workspace_init ''https://d2s.example.org'' 0 ''k''
     \<lparr>sessions = (\<lambda>r. \<lparr>cookies = [\<lparr>cookie_name = ''access_token'', cookie_value = Some ''abc'',
          cookie_domain = Some ''d2s.example.org'', cookie_path = ''/''\<rparr>], api_key = None\<rparr>),
        next_ref = 1, trace = []\<rparr>)
     = Inr \<lparr>ws_api_key = ''k'', ws_base_url = ''https://d2s.example.org'', ws_session = 0,
            ws_client = \<lparr>client_base_url = ''https://d2s.example.org'', client_session = 0\<rparr>\<rparr>"
  using client_construction_needs_access_token [of
     "\<lparr>sessions = (\<lambda>r. \<lparr>cookies = [], api_key = None\<rparr>), next_ref = 1, trace = []\<rparr>" 0
     "''https://d2s.example.org''" "''k''"]
   client_construction_needs_access_token [of
     "\<lparr>sessions = (\<lambda>r. \<lparr>cookies = [\<lparr>cookie_name = ''access_token'', cookie_value = Some ''abc'',
          cookie_domain = Some ''d2s.example.org'', cookie_path = ''/''\<rparr>], api_key = None\<rparr>),
        next_ref = 1, trace = []\<rparr>" 0
     "''https://d2s.example.org''" "''k''"]
  by simp

section \<open>The client reference of a resource\<close>

lemma client_of_dict_update:
  "map_of d ''client'' = Some (PClient c) \<Longrightarrow> map_of (rev kwargs) ''client'' = None \<Longrightarrow>
   client_of \<lparr>obj_class = cl, obj_dict = dict_update d kwargs\<rparr> = Inr c"
  by (simp add: client_of_def map_of_dict_update)

lemma map_of_rev_None: "map_of (rev kvs) k = None \<longleftrightarrow> k \<notin> set (map fst kvs)"
  by (simp add: map_of_eq_None_iff)

lemma client_of_Flight_init:
  "Flight_init c kwargs = Inr obj \<Longrightarrow> map_of (rev kwargs) ''client'' = None \<Longrightarrow>
   client_of obj = Inr c"
  by (auto simp: Flight_init_def Let_def client_of_def map_of_dict_update update_conv'
      split: option.splits if_splits pyval.splits json.splits sum.splits)

lemma Flight_init_total: "\<exists>obj. Flight_init c kwargs = Inr obj"
  by (auto simp: Flight_init_def Let_def first_item_split_char
      split: option.splits if_splits pyval.splits json.splits sum.splits)

text \<open>
  C10, as the code has it. A constructor body assigns \<^verbatim>\<open>client\<close> and then spreads the
  keyword arguments, so an entry \<^verbatim>\<open>client\<close> among them would win
  (the first two conjuncts, for the bodies of \<^verbatim>\<open>Project\<close> and \<^verbatim>\<open>DataProduct\<close>). But the
  bodies are reached only through the call \<^verbatim>\<open>C(self.client, **data)\<close>: for a server
  object with neither a key \<^verbatim>\<open>client\<close> nor a key \<^verbatim>\<open>self\<close> the resource is built and
  its \<^verbatim>\<open>client\<close> is the shared client passed in, and for a server object with a key
  \<^verbatim>\<open>client\<close> the call raises \<^verbatim>\<open>TypeError\<close> and no resource is built.
\<close>

theorem constructor_client_reference:
  "map_of (obj_dict (Project_init c kwargs)) ''client''
     = (case map_of (rev kwargs) ''client'' of None \<Rightarrow> Some (PClient c) | Some v \<Rightarrow> Some (PJson v))
   \<and> map_of (obj_dict (DataProduct_init c kwargs)) ''client''
     = (case map_of (rev kwargs) ''client'' of None \<Rightarrow> Some (PClient c) | Some v \<Rightarrow> Some (PJson v))
   \<and> (''client'' \<notin> set (map fst kvs) \<and> ''self'' \<notin> set (map fst kvs) \<longrightarrow>
        (\<exists>p. new_Project c (JObj kvs) = Inr p \<and> client_of p = Inr c)
      \<and> (\<exists>f. new_Flight c (JObj kvs) = Inr f \<and> client_of f = Inr c)
      \<and> (\<exists>d. new_DataProduct c (JObj kvs) = Inr d \<and> client_of d = Inr c))
   \<and> (''client'' \<in> set (map fst kvs) \<longrightarrow>
        new_Project c (JObj kvs) = Inl TypeError
      \<and> new_Flight c (JObj kvs) = Inl TypeError
      \<and> new_DataProduct c (JObj kvs) = Inl TypeError)"
proof -
  have bad: "''client'' \<in> set (map fst kvs) \<Longrightarrow> bind_kwargs (JObj kvs) = Inl TypeError"
    by (simp add: bind_kwargs_def)
  have good: "''client'' \<notin> set (map fst kvs) \<Longrightarrow> ''self'' \<notin> set (map fst kvs)
      \<Longrightarrow> bind_kwargs (JObj kvs) = Inr kvs"
    by (simp add: bind_kwargs_def)
  have none: "''client'' \<notin> set (map fst kvs) \<Longrightarrow> map_of (rev kvs) ''client'' = None"
    by (simp add: map_of_rev_None)
  show ?thesis
  proof (intro conjI impI; (elim conjE)?)
    show "map_of (obj_dict (Project_init c kwargs)) ''client''
       = (case map_of (rev kwargs) ''client'' of None \<Rightarrow> Some (PClient c) | Some v \<Rightarrow> Some (PJson v))"
      by (simp add: Project_init_def map_of_dict_update split: option.splits)
    show "map_of (obj_dict (DataProduct_init c kwargs)) ''client''
       = (case map_of (rev kwargs) ''client'' of None \<Rightarrow> Some (PClient c) | Some v \<Rightarrow> Some (PJson v))"
      by (simp add: DataProduct_init_def map_of_dict_update split: option.splits)
  next
    assume a: "''client'' \<notin> set (map fst kvs)" "''self'' \<notin> set (map fst kvs)"
    show "\<exists>p. new_Project c (JObj kvs) = Inr p \<and> client_of p = Inr c"
      using good [OF a] none [OF a(1)]
      by (simp add: new_Project_def Project_init_def client_of_dict_update)
    show "\<exists>d. new_DataProduct c (JObj kvs) = Inr d \<and> client_of d = Inr c"
      using good [OF a] none [OF a(1)]
      by (simp add: new_DataProduct_def DataProduct_init_def client_of_dict_update)
    obtain f where f: "Flight_init c kvs = Inr f"
      using Flight_init_total by blast
    then show "\<exists>f. new_Flight c (JObj kvs) = Inr f \<and> client_of f = Inr c"
      using good [OF a] client_of_Flight_init [OF f none [OF a(1)]]
      by (simp add: new_Flight_def)
  next
    assume "''client'' \<in> set (map fst kvs)"
    then show "new_Project c (JObj kvs) = Inl TypeError"
      "new_Flight c (JObj kvs) = Inl TypeError"
      "new_DataProduct c (JObj kvs) = Inl TypeError"
      using bad by (simp_all add: new_Project_def new_Flight_def new_DataProduct_def)
  qed
qed

theorem constructor_client_reference_witness:
  "(\<exists>p. new_Project \<lparr>client_base_url = ''https://d2s.example.org'', client_session = 0\<rparr>
          (JObj [(''id'', JInt 1), (''title'', JStr ''Field A'')]) = Inr p
        \<and> client_of p = Inr \<lparr>client_base_url = ''https://d2s.example.org'', client_session = 0\<rparr>)
   \<and> new_DataProduct \<lparr>client_base_url = ''https://d2s.example.org'', client_session = 0\<rparr>
          (JObj [(''client'', JStr ''x'')]) = Inl TypeError"
  using constructor_client_reference
          [of "\<lparr>client_base_url = ''https://d2s.example.org'', client_session = 0\<rparr>" "[]"
              "[(''id'', JInt 1), (''title'', JStr ''Field A'')]"]
        constructor_client_reference
          [of "\<lparr>client_base_url = ''https://d2s.example.org'', client_session = 0\<rparr>" "[]"
              "[(''client'', JStr ''x'')]"]
  by simp

text \<open>
  The claim as first written says that a server field \<^verbatim>\<open>client\<close> replaces the
  reference. At the server object \<^verbatim>\<open>{"id": 1, "client": "x"}\<close> no resource exists
  whose reference could have been replaced: each of the three calls raises.
\<close>

theorem client_field_replaces_reference_counterexample:
  "new_Project \<lparr>client_base_url = ''https://d2s.example.org'', client_session = 0\<rparr>
      (JObj [(''id'', JInt 1), (''client'', JStr ''x'')]) = Inl TypeError
   \<and> new_Flight \<lparr>client_base_url = ''https://d2s.example.org'', client_session = 0\<rparr>
      (JObj [(''id'', JInt 1), (''client'', JStr ''x'')]) = Inl TypeError
   \<and> new_DataProduct \<lparr>client_base_url = ''https://d2s.example.org'', client_session = 0\<rparr>
      (JObj [(''id'', JInt 1), (''client'', JStr ''x'')]) = Inl TypeError"
  by (simp add: new_Project_def new_Flight_def new_DataProduct_def bind_kwargs_def)

section \<open>Requests and the trace\<close>

lemma send_eq:
  "send e rq w = (transport e (trace w @ [rq]), w\<lparr>trace := trace w @ [rq]\<rparr>)"
  by (simp add: send_def Let_def)

lemma trace_extract_cookies_to_jar [simp]: "trace (extract_cookies_to_jar s ops w) = trace w"
  by (simp add: extract_cookies_to_jar_def)

lemma trace_cookies_set [simp]: "trace (cookies_set s n v d p w) = trace w"
  by (simp add: cookies_set_def)

lemma trace_cookies_clear [simp]: "trace (cookies_clear s w) = trace w"
  by (simp add: cookies_clear_def)

lemma cookies_extract_cookies_to_jar:
  "cookies (sessions (extract_cookies_to_jar s ops w) s) = apply_ops ops (cookies (sessions w s))"
  by (simp add: extract_cookies_to_jar_def)

lemma cookies_cookies_set:
  "cookies (sessions (cookies_set s n v d p w) s)
     = set_cookie \<lparr>cookie_name = n, cookie_value = Some (cookie_jar_value v),
                   cookie_domain = d, cookie_path = p\<rparr>
         (cookies (sessions w s))"
  by (simp add: cookies_set_def)

lemma session_get_eq:
  assumes "rq = \<lparr>req_method = GET, req_url = url, req_params = kw, req_data = []\<rparr>"
  shows "session_get e s url kw w =
           (reply_result (transport e (trace w @ [rq])),
            extract_cookies_to_jar s (reply_ops (transport e (trace w @ [rq])))
              (w\<lparr>trace := trace w @ [rq]\<rparr>))"
  using assms by (simp add: session_get_def send_eq)

lemma session_post_eq:
  assumes "rq = \<lparr>req_method = POST, req_url = url, req_params = None, req_data = []\<rparr>"
  shows "session_post e s url w =
           (reply_result (transport e (trace w @ [rq])),
            extract_cookies_to_jar s (reply_ops (transport e (trace w @ [rq])))
              (w\<lparr>trace := trace w @ [rq]\<rparr>))"
  using assms by (simp add: session_post_def send_eq)


lemma session_get_trace:
  "trace (snd (session_get e s url kw w))
     = trace w @ [\<lparr>req_method = GET, req_url = url, req_params = kw, req_data = []\<rparr>]"
  by (simp add: session_get_eq [OF refl])



lemma jar_contains_iff: "jar_contains n jar \<longleftrightarrow> jar_getitem jar n \<noteq> Inl KeyError"
  by (auto simp: jar_contains_def split: sum.splits)

lemma store_token_step:
  "(if jar_contains n cs
    then (case jar_getitem cs n of
            Inl err \<Rightarrow> Inl err
          | Inr v \<Rightarrow>
              Inr (if host = ''localhost'' \<or> host = ''127.0.0.1''
                   then cookies_set s n v None ''/'' w
                   else cookies_set s n v (Some host) ''/'' w))
    else Inr w)
   = (case jar_getitem cs n of
        Inr v \<Rightarrow> Inr (cookies_set s n v (spec_scope host) ''/'' w)
      | Inl err \<Rightarrow> if err = KeyError then Inr w else Inl err)"
  by (auto simp: jar_contains_iff spec_scope_def split: sum.splits)

section \<open>An expired session\<close>

text \<open>
  C2. Let a GET through the client, on an endpoint other than the refresh endpoint, get
  a first response with status 401, and let \<open>w1\<close> be the world after that exchange. If
  \<^verbatim>\<open>_refresh_access_token\<close> then returns False, the call ends with the
  \<^verbatim>\<open>ValueError\<close> for an expired session and the session's jar is empty afterwards. In
  particular, when the session then has no \<^verbatim>\<open>refresh_token\<close> cookie the refresh
  returns False without touching the world, and the call ends that way with only the jar
  cleared.
\<close>

theorem expired_session_is_cleared:
  assumes "endpoint \<noteq> ''/api/v1/auth/refresh-token''"
    and "session_get e (client_session self) (client_base_url self @ endpoint) kwargs w = (Inr r, w1)"
    and "status_code r = 401"
  shows "(fst (refresh_access_token e self w1) = False \<longrightarrow>
            fst (make_get_request e self endpoint kwargs w)
              = Inl (ValueError ''Session expired. Please login again.'')
          \<and> cookies (sessions (snd (make_get_request e self endpoint kwargs w))
                       (client_session self)) = [])
       \<and> (\<not> (\<exists>c \<in> set (cookies (sessions w1 (client_session self))).
                 cookie_name c = ''refresh_token'') \<longrightarrow>
            refresh_access_token e self w1 = (False, w1)
          \<and> make_get_request e self endpoint kwargs w
              = (Inl (ValueError ''Session expired. Please login again.''),
                 cookies_clear (client_session self) w1))"
proof (intro conjI impI)
  assume "fst (refresh_access_token e self w1) = False"
  then obtain w2 where w2: "refresh_access_token e self w1 = (False, w2)"
    by (cases "refresh_access_token e self w1") auto
  show "fst (make_get_request e self endpoint kwargs w)
          = Inl (ValueError ''Session expired. Please login again.'')"
    using assms w2 by (simp add: make_get_request_def)
  show "cookies (sessions (snd (make_get_request e self endpoint kwargs w))
                  (client_session self)) = []"
    using assms w2 by (simp add: make_get_request_def cookies_clear_def)
next
  assume n: "\<not> (\<exists>c \<in> set (cookies (sessions w1 (client_session self))).
                   cookie_name c = ''refresh_token'')"
  show r: "refresh_access_token e self w1 = (False, w1)"
    using n by (simp add: refresh_access_token_def has_cookie_named_iff)
  show "make_get_request e self endpoint kwargs w
          = (Inl (ValueError ''Session expired. Please login again.''),
             cookies_clear (client_session self) w1)"
    using assms r by (simp add: make_get_request_def)
qed

lemmas ex_defs = example_env_def example_world_def example_client_def reply_with_def
  access_cookie_def refresh_cookie_def host_cookie_def local_cookie_def local_client_def
  example_auth_def local_auth_def

lemmas run_defs = make_get_request_def refresh_access_token_def refresh_try_def
  session_get_def session_post_def requests_post_def send_eq extract_cookies_to_jar_def
  apply_ops_def cookies_set_def cookies_clear_def
  has_cookie_named_def jar_contains_def jar_getitem_def host_of_def spec_scope_def
  cookie_jar_value_def
  finish_get_def raise_for_status_def response_json_def
  same_slot_def domain_key_def Let_def

theorem expired_session_is_cleared_witness:
  "fst (make_get_request (example_env ''d2s.example.org'' [reply_with 401 [] None]) example_client
          ''/api/v1/projects'' None (example_world [access_cookie]))
     = Inl (ValueError ''Session expired. Please login again.'')
   \<and> cookies (sessions (snd (make_get_request (example_env ''d2s.example.org'' [reply_with 401 [] None])
          example_client ''/api/v1/projects'' None (example_world [access_cookie]))) 0) = []
   \<and> trace (snd (make_get_request (example_env ''d2s.example.org'' [reply_with 401 [] None])
          example_client ''/api/v1/projects'' None (example_world [access_cookie])))
      = [\<lparr>req_method = GET, req_url = ''https://d2s.example.org/api/v1/projects'',
           req_params = None, req_data = []\<rparr>]"
proof -
  have h: "session_get (example_env ''d2s.example.org'' [reply_with 401 [] None])
             (client_session example_client)
             (client_base_url example_client @ ''/api/v1/projects'') None
             (example_world [access_cookie])
           = (Inr \<lparr>status_code = 401, resp_cookies = [], body = None\<rparr>,
              extract_cookies_to_jar 0 []
               ((example_world [access_cookie])
                \<lparr>trace := [\<lparr>req_method = GET, req_url = ''https://d2s.example.org/api/v1/projects'',
                             req_params = None, req_data = []\<rparr>]\<rparr>))"
    by (simp add: session_get_def send_eq example_env_def example_world_def example_client_def
          reply_with_def)
  show ?thesis
    using expired_session_is_cleared [OF _ h]
    by (simp add: ex_defs cookies_clear_def extract_cookies_to_jar_def apply_ops_def)
qed

section \<open>Refreshing the access token\<close>

lemma refresh_access_token_eq:
  assumes "rq = \<lparr>req_method = POST,
                  req_url = client_base_url self @ ''/api/v1/auth/refresh-token'',
                  req_params = None, req_data = []\<rparr>"
    and "rep = transport e (trace w @ [rq])"
    and "w1 = extract_cookies_to_jar (client_session self) (reply_ops rep)
                (w\<lparr>trace := trace w @ [rq]\<rparr>)"
    and "host = host_of e (client_base_url self)"
  shows "refresh_access_token e self w =
     (if \<not> has_cookie_named ''refresh_token'' (cookies (sessions w (client_session self)))
      then (False, w)
      else (case reply_result rep of
              Inl err \<Rightarrow> (False, w1)
            | Inr r \<Rightarrow>
                if status_code r = 200
                then (case (case jar_getitem (resp_cookies r) ''access_token'' of
                              Inr v \<Rightarrow> Inr (cookies_set (client_session self) ''access_token'' v
                                               (spec_scope host) ''/'' w1)
                            | Inl err \<Rightarrow> if err = KeyError then Inr w1 else Inl err) of
                        Inl err \<Rightarrow> (False, w1)
                      | Inr w2 \<Rightarrow>
                          (case (case jar_getitem (resp_cookies r) ''refresh_token'' of
                                   Inr v \<Rightarrow> Inr (cookies_set (client_session self)
                                                    ''refresh_token'' v (spec_scope host) ''/'' w2)
                                 | Inl err \<Rightarrow> if err = KeyError then Inr w2 else Inl err) of
                             Inl err \<Rightarrow> (False, w2)
                           | Inr w3 \<Rightarrow> (True, w3)))
                else (False, w1)))"
proof -
  have p: "session_post e (client_session self)
             (client_base_url self @ ''/api/v1/auth/refresh-token'') w = (reply_result rep, w1)"
    unfolding assms(2,3) by (rule session_post_eq [OF assms(1)])
  show ?thesis
    unfolding refresh_access_token_def refresh_try_def Let_def p store_token_step assms(4)
    by (simp split: sum.splits)
qed



text \<open>
  The claim as first written has every response with status 200 give True. Here the
  session has a \<^verbatim>\<open>refresh_token\<close> cookie and the refresh endpoint answers 200 with two
  \<^verbatim>\<open>access_token\<close> cookies, for the paths \<^verbatim>\<open>/\<close> and \<^verbatim>\<open>/api\<close>: the subscript raises
  inside the \<^verbatim>\<open>try\<close> and the result is False.
\<close>

theorem refresh_true_on_200_counterexample:
  "has_cookie_named ''refresh_token'' (cookies (sessions (example_world [access_cookie, refresh_cookie]) 0))
   \<and> reply_result (transport
         (example_env ''d2s.example.org''
            [reply_with 200 [host_cookie ''d2s.example.org'' ''/'' ''access_token'' ''a2'',
                             host_cookie ''d2s.example.org'' ''/api'' ''access_token'' ''a3''] None])
         (trace (snd (refresh_access_token
            (example_env ''d2s.example.org''
               [reply_with 200 [host_cookie ''d2s.example.org'' ''/'' ''access_token'' ''a2'',
                                host_cookie ''d2s.example.org'' ''/api'' ''access_token'' ''a3''] None])
            example_client (example_world [access_cookie, refresh_cookie])))))
      = Inr \<lparr>status_code = 200,
             resp_cookies = [host_cookie ''d2s.example.org'' ''/'' ''access_token'' ''a2'',
                             host_cookie ''d2s.example.org'' ''/api'' ''access_token'' ''a3''],
             body = None\<rparr>
   \<and> fst (refresh_access_token
         (example_env ''d2s.example.org''
            [reply_with 200 [host_cookie ''d2s.example.org'' ''/'' ''access_token'' ''a2'',
                             host_cookie ''d2s.example.org'' ''/api'' ''access_token'' ''a3''] None])
         example_client (example_world [access_cookie, refresh_cookie]))
      = False"
  by (simp add: ex_defs run_defs)

section \<open>GET with one refresh and one retry\<close>

lemma refresh_access_token_trace:
  "trace (snd (refresh_access_token e self w)) = trace w
   \<or> trace (snd (refresh_access_token e self w))
       = trace w @ [\<lparr>req_method = POST,
                      req_url = client_base_url self @ ''/api/v1/auth/refresh-token'',
                      req_params = None, req_data = []\<rparr>]"
  unfolding refresh_access_token_eq [OF refl refl refl refl]
  by (simp split: sum.splits)

lemma refresh_access_token_True_trace:
  "fst (refresh_access_token e self w) \<Longrightarrow>
   trace (snd (refresh_access_token e self w))
       = trace w @ [\<lparr>req_method = POST,
                      req_url = client_base_url self @ ''/api/v1/auth/refresh-token'',
                      req_params = None, req_data = []\<rparr>]"
  unfolding refresh_access_token_eq [OF refl refl refl refl]
  by (simp split: sum.splits if_splits)

lemma make_get_request_eq:
  assumes "rq1 = \<lparr>req_method = GET, req_url = client_base_url self @ endpoint,
                   req_params = kwargs, req_data = []\<rparr>"
    and "w1 = snd (session_get e (client_session self) (client_base_url self @ endpoint) kwargs w)"
    and "w2 = snd (refresh_access_token e self w1)"
    and "w3 = snd (session_get e (client_session self) (client_base_url self @ endpoint) kwargs w2)"
  shows "make_get_request e self endpoint kwargs w =
     (case reply_result (transport e (trace w @ [rq1])) of
        Inl err \<Rightarrow> (Inl err, w1)
      | Inr r1 \<Rightarrow>
          if status_code r1 = 401 \<and> endpoint \<noteq> ''/api/v1/auth/refresh-token''
          then (if fst (refresh_access_token e self w1)
                then (case reply_result (transport e (trace w2 @ [rq1])) of
                        Inl err \<Rightarrow> (Inl err, w3)
                      | Inr r2 \<Rightarrow> (finish_get r2, w3))
                else (Inl (ValueError ''Session expired. Please login again.''),
                      cookies_clear (client_session self) w2))
          else (finish_get r1, w1))"
  using assms
  by (simp add: make_get_request_def session_get_eq [OF refl] Let_def
        split: sum.splits prod.splits bool.splits)

lemma make_get_request_trace:
  assumes "rq1 = \<lparr>req_method = GET, req_url = client_base_url self @ endpoint,
                   req_params = kwargs, req_data = []\<rparr>"
    and "post = \<lparr>req_method = POST,
                   req_url = client_base_url self @ ''/api/v1/auth/refresh-token'',
                   req_params = None, req_data = []\<rparr>"
    and "out = make_get_request e self endpoint kwargs w"
  shows "trace (snd out) = trace w @ [rq1]
          \<or> trace (snd out) = trace w @ [rq1, post]
          \<or> trace (snd out) = trace w @ [rq1, post, rq1]"
proof -
  define w1 where "w1 = snd (session_get e (client_session self) (client_base_url self @ endpoint) kwargs w)"
  define w2 where "w2 = snd (refresh_access_token e self w1)"
  define w3 where "w3 = snd (session_get e (client_session self) (client_base_url self @ endpoint) kwargs w2)"
  note eq = make_get_request_eq [OF assms(1) w1_def w2_def w3_def, folded assms(3)]
  have t1: "trace w1 = trace w @ [rq1]"
    unfolding w1_def assms(1) by (rule session_get_trace)
  have t3: "trace w3 = trace w2 @ [rq1]"
    unfolding w3_def assms(1) by (rule session_get_trace)
  have tT: "fst (refresh_access_token e self w1) \<Longrightarrow> trace w2 = trace w @ [rq1, post]"
    using refresh_access_token_True_trace [of e self w1] assms(2) w2_def t1 by simp
  have tF: "trace w2 = trace w @ [rq1] \<or> trace w2 = trace w @ [rq1, post]"
    using refresh_access_token_trace [of e self w1] assms(2) w2_def t1 by auto
  show ?thesis
    unfolding eq using t1 t3 tT tF by (auto split: sum.splits)
qed

text \<open>
  C1, as the code has it. \<open>rq1\<close> is the GET of a call, \<open>post\<close> the POST of the refresh,
  and \<open>w1\<close> the world after the first exchange. On an endpoint other than the refresh
  endpoint, if the first response has status 401 and \<^verbatim>\<open>_refresh_access_token\<close> then
  returns True, the call sends exactly three requests, \<open>rq1\<close>, \<open>post\<close> and \<open>rq1\<close> once
  more, with the same URL and parameters, and ends as the retry decides: with the
  exception of a transport failure if the retry fails, with the parsed body \<open>j\<close> if the
  retry's status is not in 400..599 and its body is JSON, and with an \<^verbatim>\<open>HTTPError\<close> if
  the status is in 400..599, 401 included. Every call sends the first GET alone, or the
  first GET and one refresh POST, or those two and one retried GET, and nothing else. On
  the refresh endpoint itself a call sends its one GET and ends in the world \<open>w1\<close>: no
  refresh runs, and every session is as it was if the library stored nothing for that
  exchange.
\<close>

theorem get_retries_once_after_refresh:
  assumes "rq1 = \<lparr>req_method = GET, req_url = client_base_url self @ endpoint,
                   req_params = kwargs, req_data = []\<rparr>"
    and "w1 = snd (session_get e (client_session self) (client_base_url self @ endpoint) kwargs w)"
    and "post = \<lparr>req_method = POST,
                   req_url = client_base_url self @ ''/api/v1/auth/refresh-token'',
                   req_params = None, req_data = []\<rparr>"
    and "out = make_get_request e self endpoint kwargs w"
  shows "(endpoint \<noteq> ''/api/v1/auth/refresh-token''
            \<and> reply_result (transport e (trace w @ [rq1])) = Inr r1 \<and> status_code r1 = 401
            \<and> fst (refresh_access_token e self w1) \<longrightarrow>
            trace (snd out) = trace w @ [rq1, post, rq1]
          \<and> fst out = (case reply_result (transport e (trace w @ [rq1, post, rq1])) of
                          Inl err \<Rightarrow> Inl err
                        | Inr r2 \<Rightarrow> finish_get r2)
          \<and> (reply_result (transport e (trace w @ [rq1, post, rq1])) = Inr r2
                \<and> \<not> (400 \<le> status_code r2 \<and> status_code r2 < 600) \<and> body r2 = Some j
              \<longrightarrow> fst out = Inr j)
          \<and> (reply_result (transport e (trace w @ [rq1, post, rq1])) = Inr r2
                \<and> 400 \<le> status_code r2 \<and> status_code r2 < 600
              \<longrightarrow> fst out = Inl (HTTPError (status_code r2)))
          \<and> (reply_result (transport e (trace w @ [rq1, post, rq1])) = Inl err
              \<longrightarrow> fst out = Inl err))
       \<and> (trace (snd out) = trace w @ [rq1]
            \<or> trace (snd out) = trace w @ [rq1, post]
            \<or> trace (snd out) = trace w @ [rq1, post, rq1])
       \<and> (endpoint = ''/api/v1/auth/refresh-token'' \<longrightarrow>
            trace (snd out) = trace w @ [rq1] \<and> snd out = w1
          \<and> (reply_ops (transport e (trace w @ [rq1])) = [] \<longrightarrow> sessions (snd out) = sessions w))"
proof -
  define w2 where "w2 = snd (refresh_access_token e self w1)"
  define w3 where "w3 = snd (session_get e (client_session self) (client_base_url self @ endpoint) kwargs w2)"
  note eq = make_get_request_eq [OF assms(1,2) w2_def w3_def, folded assms(4)]
  have t1: "trace w1 = trace w @ [rq1]"
    unfolding assms(1,2) by (rule session_get_trace)
  have t3: "trace w3 = trace w2 @ [rq1]"
    unfolding w3_def assms(1) by (rule session_get_trace)
  have tT: "fst (refresh_access_token e self w1) \<Longrightarrow> trace w2 = trace w @ [rq1, post]"
    using refresh_access_token_True_trace [of e self w1] assms(3) w2_def t1 by simp
  have A: "trace (snd out) = trace w @ [rq1, post, rq1]"
       "fst out = (case reply_result (transport e (trace w @ [rq1, post, rq1])) of
                          Inl err \<Rightarrow> Inl err
                        | Inr r2 \<Rightarrow> finish_get r2)"
    if "endpoint \<noteq> ''/api/v1/auth/refresh-token''"
       "reply_result (transport e (trace w @ [rq1])) = Inr r1" "status_code r1 = 401"
       "fst (refresh_access_token e self w1)"
    using that tT t3 eq by (simp_all split: sum.splits)
  have C: "trace (snd out) = trace w @ [rq1] \<and> snd out = w1"
    if "endpoint = ''/api/v1/auth/refresh-token''"
    using that t1 eq by (simp split: sum.splits)
  have w1s: "sessions w1 = sessions w" if "reply_ops (transport e (trace w @ [rq1])) = []"
    unfolding assms(2) session_get_eq [OF assms(1) [unfolded assms(1)], folded assms(1)]
    using that by (simp add: extract_cookies_to_jar_def apply_ops_def)
  show ?thesis
  proof (intro conjI impI; (elim conjE)?)
    assume h: "endpoint \<noteq> ''/api/v1/auth/refresh-token''"
       "reply_result (transport e (trace w @ [rq1])) = Inr r1" "status_code r1 = 401"
       "fst (refresh_access_token e self w1)"
    show "trace (snd out) = trace w @ [rq1, post, rq1]" by (rule A(1) [OF h])
    show "fst out = (case reply_result (transport e (trace w @ [rq1, post, rq1])) of
                          Inl err \<Rightarrow> Inl err
                        | Inr r2 \<Rightarrow> finish_get r2)" by (rule A(2) [OF h])
    {
      assume "reply_result (transport e (trace w @ [rq1, post, rq1])) = Inr r2"
        "\<not> (400 \<le> status_code r2 \<and> status_code r2 < 600)" "body r2 = Some j"
      then show "fst out = Inr j"
        using A(2) [OF h] by (simp add: finish_get_def raise_for_status_def response_json_def)
    }
    {
      assume "reply_result (transport e (trace w @ [rq1, post, rq1])) = Inr r2"
        "400 \<le> status_code r2" "status_code r2 < 600"
      then show "fst out = Inl (HTTPError (status_code r2))"
        using A(2) [OF h] by (simp add: finish_get_def raise_for_status_def)
    }
    {
      assume "reply_result (transport e (trace w @ [rq1, post, rq1])) = Inl err"
      then show "fst out = Inl err"
        using A(2) [OF h] by simp
    }
  next
    show "trace (snd out) = trace w @ [rq1]
            \<or> trace (snd out) = trace w @ [rq1, post]
            \<or> trace (snd out) = trace w @ [rq1, post, rq1]"
      by (rule make_get_request_trace [OF assms(1,3,4)])
  next
    assume h: "endpoint = ''/api/v1/auth/refresh-token''"
    show "trace (snd out) = trace w @ [rq1]" "snd out = w1"
      using C [OF h] by blast+
    assume "reply_ops (transport e (trace w @ [rq1])) = []"
    then show "sessions (snd out) = sessions w"
      using C [OF h] w1s by simp
  qed
qed

theorem get_retries_once_after_refresh_witness:
  "fst (make_get_request
           (example_env ''d2s.example.org''
              [reply_with 401 [] None,
               reply_with 200 [host_cookie ''d2s.example.org'' ''/'' ''access_token'' ''a2''] None,
               reply_with 200 [] (Some (JArr []))])
           example_client ''/api/v1/projects'' (Some [(''has_raster'', True)])
           (example_world [access_cookie, refresh_cookie]))
     = Inr (JArr [])
   \<and> trace (snd (make_get_request
           (example_env ''d2s.example.org''
              [reply_with 401 [] None,
               reply_with 200 [host_cookie ''d2s.example.org'' ''/'' ''access_token'' ''a2''] None,
               reply_with 200 [] (Some (JArr []))])
           example_client ''/api/v1/projects'' (Some [(''has_raster'', True)])
           (example_world [access_cookie, refresh_cookie])))
     = [\<lparr>req_method = GET, req_url = ''https://d2s.example.org/api/v1/projects'',
         req_params = Some [(''has_raster'', True)], req_data = []\<rparr>,
        \<lparr>req_method = POST, req_url = ''https://d2s.example.org/api/v1/auth/refresh-token'',
         req_params = None, req_data = []\<rparr>,
        \<lparr>req_method = GET, req_url = ''https://d2s.example.org/api/v1/projects'',
         req_params = Some [(''has_raster'', True)], req_data = []\<rparr>]"
  using get_retries_once_after_refresh [OF refl refl refl refl,
          where e = "example_env ''d2s.example.org''
              [reply_with 401 [] None,
               reply_with 200 [host_cookie ''d2s.example.org'' ''/'' ''access_token'' ''a2''] None,
               reply_with 200 [] (Some (JArr []))]"
            and self = example_client and endpoint = "''/api/v1/projects''"
            and kwargs = "Some [(''has_raster'', True)]"
            and w = "example_world [access_cookie, refresh_cookie]"
            and ?r1.0 = "\<lparr>status_code = 401, resp_cookies = [], body = None\<rparr>"
            and ?r2.0 = "\<lparr>status_code = 200, resp_cookies = [], body = Some (JArr [])\<rparr>"
            and j = "JArr []"]
  by (simp add: ex_defs run_defs)

text \<open>
  The claim as first written returns the retry's parsed body whenever the refresh
  succeeded. Here the first GET is answered 401, the refresh 200, and the retry 401 with
  a JSON body: the call ends with \<^verbatim>\<open>HTTPError\<close>, not with that body.
\<close>

theorem retry_body_returned_counterexample:
  "fst (session_get
           (example_env ''d2s.example.org''
              [reply_with 401 [] None,
               reply_with 200 [host_cookie ''d2s.example.org'' ''/'' ''access_token'' ''a2''] None,
               reply_with 401 [] (Some (JObj [(''detail'', JStr ''Not authenticated'')]))])
           0 ''https://d2s.example.org/api/v1/projects'' None
           (example_world [access_cookie, refresh_cookie]))
     = Inr \<lparr>status_code = 401, resp_cookies = [], body = None\<rparr>
   \<and> fst (refresh_access_token
           (example_env ''d2s.example.org''
              [reply_with 401 [] None,
               reply_with 200 [host_cookie ''d2s.example.org'' ''/'' ''access_token'' ''a2''] None,
               reply_with 401 [] (Some (JObj [(''detail'', JStr ''Not authenticated'')]))])
           example_client
           (snd (session_get
              (example_env ''d2s.example.org''
                 [reply_with 401 [] None,
                  reply_with 200 [host_cookie ''d2s.example.org'' ''/'' ''access_token'' ''a2''] None,
                  reply_with 401 [] (Some (JObj [(''detail'', JStr ''Not authenticated'')]))])
              0 ''https://d2s.example.org/api/v1/projects'' None
              (example_world [access_cookie, refresh_cookie]))))
   \<and> reply_result (transport
         (example_env ''d2s.example.org''
              [reply_with 401 [] None,
               reply_with 200 [host_cookie ''d2s.example.org'' ''/'' ''access_token'' ''a2''] None,
               reply_with 401 [] (Some (JObj [(''detail'', JStr ''Not authenticated'')]))])
         (trace (snd (make_get_request
           (example_env ''d2s.example.org''
              [reply_with 401 [] None,
               reply_with 200 [host_cookie ''d2s.example.org'' ''/'' ''access_token'' ''a2''] None,
               reply_with 401 [] (Some (JObj [(''detail'', JStr ''Not authenticated'')]))])
           example_client ''/api/v1/projects'' None
           (example_world [access_cookie, refresh_cookie])))))
     = Inr \<lparr>status_code = 401, resp_cookies = [],
            body = Some (JObj [(''detail'', JStr ''Not authenticated'')])\<rparr>
   \<and> fst (make_get_request
           (example_env ''d2s.example.org''
              [reply_with 401 [] None,
               reply_with 200 [host_cookie ''d2s.example.org'' ''/'' ''access_token'' ''a2''] None,
               reply_with 401 [] (Some (JObj [(''detail'', JStr ''Not authenticated'')]))])
           example_client ''/api/v1/projects'' None
           (example_world [access_cookie, refresh_cookie]))
     = Inl (HTTPError 401)"
  by (simp add: ex_defs run_defs)

section \<open>Login\<close>









lemma api_key_cookies_set [simp]:
  "api_key (sessions (cookies_set s n v d p w) r) = api_key (sessions w r)"
  by (simp add: cookies_set_def)

lemma api_key_extract_cookies_to_jar [simp]:
  "api_key (sessions (extract_cookies_to_jar s ops w) r) = api_key (sessions w r)"
  by (simp add: extract_cookies_to_jar_def)





lemmas login_defs = login_def store_api_key_def spec_token_cookie_def str_int_def digit_char_def







text \<open>
  The claim as first written has the token cookies remain set after every failed user
  lookup. Here the token endpoint answers 200 with an \<^verbatim>\<open>access_token\<close> cookie and the
  lookup is answered 401 with a header that expires that cookie: \<^verbatim>\<open>login\<close> raises the
  \<^verbatim>\<open>ValueError\<close> for a failed user lookup and the jar is empty.
\<close>

theorem tokens_remain_after_failed_lookup_counterexample:
  "fst (login (example_env ''d2s.example.org''
                 [reply_with 200 [access_cookie] None,
                  Reply \<lparr>status_code = 401, resp_cookies = [], body = None\<rparr>
                    [Expire ''d2s.example.org'' ''/'' ''access_token'']])
          example_auth ''ada@example.org'' ''pw'' (example_world []))
     = Inl (ValueError ''Failed to fetch user information'')
   \<and> cookies (sessions (snd (login (example_env ''d2s.example.org''
                 [reply_with 200 [access_cookie] None,
                  Reply \<lparr>status_code = 401, resp_cookies = [], body = None\<rparr>
                    [Expire ''d2s.example.org'' ''/'' ''access_token'']])
          example_auth ''ada@example.org'' ''pw'' (example_world []))) 0)
     = []"
  by (simp add: ex_defs run_defs login_defs)

section \<open>The scope of the stored token cookies\<close>




section \<open>The has_raster filter\<close>

lemma make_get_request_requests:
  assumes "rq1 = \<lparr>req_method = GET, req_url = client_base_url self @ endpoint,
                   req_params = kwargs, req_data = []\<rparr>"
  shows "\<exists>rest. trace (snd (make_get_request e self endpoint kwargs w)) = trace w @ rq1 # rest
           \<and> (\<forall>q \<in> set rest. req_method q = GET \<longrightarrow> req_params q = kwargs)"
  using make_get_request_trace [OF assms refl refl, of e w] assms by auto

text \<open>
  C8. \<^verbatim>\<open>get_projects\<close> always sends a GET to the projects endpoint first, and
  \<^verbatim>\<open>get_flights\<close>, for a project that has an \<^verbatim>\<open>id\<close> and its client, a GET to the
  flights endpoint of that project. The parameters of that request are the single pair
  \<^verbatim>\<open>has_raster\<close> = True when the caller passes True, and no pair at all when the caller
  passes False (the default): the parameter is never sent with the value False. Every
  further GET of the call, that is the retry, carries the same parameters.
\<close>

theorem has_raster_sent_only_when_requested:
  "(\<exists>rq rest. trace (snd (get_projects e ws has_raster w)) = trace w @ rq # rest
       \<and> req_method rq = GET
       \<and> req_url rq = client_base_url (ws_client ws) @ ''/api/v1/projects''
       \<and> req_params rq = Some (if has_raster then [(''has_raster'', True)] else [])
       \<and> (\<forall>q \<in> set rest. req_method q = GET \<longrightarrow> req_params q = req_params rq))
   \<and> (getattr project ''id'' = Inr ident \<and> client_of project = Inr c \<longrightarrow>
        (\<exists>rq rest. trace (snd (get_flights e project has_raster w)) = trace w @ rq # rest
           \<and> req_method rq = GET
           \<and> req_url rq = client_base_url c @ ''/api/v1/projects/'' @ py_str e ident @ ''/flights''
           \<and> req_params rq = Some (if has_raster then [(''has_raster'', True)] else [])
           \<and> (\<forall>q \<in> set rest. req_method q = GET \<longrightarrow> req_params q = req_params rq)))"
proof (intro conjI impI)
  define ps where "ps = (if has_raster then [(''has_raster'', has_raster)] else [])"
  have ps: "ps = (if has_raster then [(''has_raster'', True)] else [])"
    by (simp add: ps_def)
  have tp: "trace (snd (get_projects e ws has_raster w))
            = trace (snd (make_get_request e (ws_client ws) ''/api/v1/projects'' (Some ps) w))"
    by (simp add: get_projects_def Let_def ps_def split: prod.splits sum.splits)
  obtain rest where
    "trace (snd (make_get_request e (ws_client ws) ''/api/v1/projects'' (Some ps) w))
       = trace w @ \<lparr>req_method = GET, req_url = client_base_url (ws_client ws) @ ''/api/v1/projects'',
                     req_params = Some ps, req_data = []\<rparr> # rest"
    "\<forall>q \<in> set rest. req_method q = GET \<longrightarrow> req_params q = Some ps"
    using make_get_request_requests [OF refl] by blast
  then show "\<exists>rq rest. trace (snd (get_projects e ws has_raster w)) = trace w @ rq # rest
       \<and> req_method rq = GET
       \<and> req_url rq = client_base_url (ws_client ws) @ ''/api/v1/projects''
       \<and> req_params rq = Some (if has_raster then [(''has_raster'', True)] else [])
       \<and> (\<forall>q \<in> set rest. req_method q = GET \<longrightarrow> req_params q = req_params rq)"
    unfolding tp ps [symmetric] by fastforce
  assume h: "getattr project ''id'' = Inr ident \<and> client_of project = Inr c"
  have tf: "trace (snd (get_flights e project has_raster w))
            = trace (snd (make_get_request e c
                (''/api/v1/projects/'' @ py_str e ident @ ''/flights'') (Some ps) w))"
    using h by (simp add: get_flights_def Let_def ps_def split: prod.splits sum.splits)
  obtain rest' where
    "trace (snd (make_get_request e c (''/api/v1/projects/'' @ py_str e ident @ ''/flights'')
                   (Some ps) w))
       = trace w @ \<lparr>req_method = GET,
                     req_url = client_base_url c @ ''/api/v1/projects/'' @ py_str e ident @ ''/flights'',
                     req_params = Some ps, req_data = []\<rparr> # rest'"
    "\<forall>q \<in> set rest'. req_method q = GET \<longrightarrow> req_params q = Some ps"
    using make_get_request_requests [OF refl] by blast
  then show "\<exists>rq rest. trace (snd (get_flights e project has_raster w)) = trace w @ rq # rest
           \<and> req_method rq = GET
           \<and> req_url rq = client_base_url c @ ''/api/v1/projects/'' @ py_str e ident @ ''/flights''
           \<and> req_params rq = Some (if has_raster then [(''has_raster'', True)] else [])
           \<and> (\<forall>q \<in> set rest. req_method q = GET \<longrightarrow> req_params q = req_params rq)"
    unfolding tf ps [symmetric] by fastforce
qed

lemma str_int_3: "str_int 3 = ''3''"
  by code_simp

lemmas resource_defs = get_projects_def get_flights_def comprehension_def getattr_def
  client_of_def

theorem has_raster_sent_only_when_requested_witness:
  "map req_params (trace (snd (get_projects
       (example_env ''d2s.example.org'' [reply_with 200 [] (Some (JArr []))])
       \<lparr>ws_api_key = ''k'', ws_base_url = ''https://d2s.example.org'', ws_session = 0,
        ws_client = example_client\<rparr> True (example_world [access_cookie]))))
     = [Some [(''has_raster'', True)]]
   \<and> map req_params (trace (snd (get_projects
       (example_env ''d2s.example.org'' [reply_with 200 [] (Some (JArr []))])
       \<lparr>ws_api_key = ''k'', ws_base_url = ''https://d2s.example.org'', ws_session = 0,
        ws_client = example_client\<rparr> False (example_world [access_cookie]))))
     = [Some []]
   \<and> map req_url (trace (snd (get_flights
       (example_env ''d2s.example.org'' [reply_with 200 [] (Some (JArr []))])
       \<lparr>obj_class = ProjectClass,
        obj_dict = [(''client'', PClient example_client), (''id'', PJson (JInt 3))]\<rparr>
       True (example_world [access_cookie]))))
     = [''https://d2s.example.org/api/v1/projects/3/flights'']
   \<and> map req_params (trace (snd (get_flights
       (example_env ''d2s.example.org'' [reply_with 200 [] (Some (JArr []))])
       \<lparr>obj_class = ProjectClass,
        obj_dict = [(''client'', PClient example_client), (''id'', PJson (JInt 3))]\<rparr>
       True (example_world [access_cookie]))))
     = [Some [(''has_raster'', True)]]"
  using has_raster_sent_only_when_requested
          [where e = "example_env ''d2s.example.org'' [reply_with 200 [] (Some (JArr []))]"
             and ws = "\<lparr>ws_api_key = ''k'', ws_base_url = ''https://d2s.example.org'',
                        ws_session = 0, ws_client = example_client\<rparr>"
             and has_raster = True and w = "example_world [access_cookie]"
             and project = "\<lparr>obj_class = ProjectClass,
                  obj_dict = [(''client'', PClient example_client), (''id'', PJson (JInt 3))]\<rparr>"
             and ident = "PJson (JInt 3)" and c = example_client]
        has_raster_sent_only_when_requested
          [where e = "example_env ''d2s.example.org'' [reply_with 200 [] (Some (JArr []))]"
             and ws = "\<lparr>ws_api_key = ''k'', ws_base_url = ''https://d2s.example.org'',
                        ws_session = 0, ws_client = example_client\<rparr>"
             and has_raster = False and w = "example_world [access_cookie]"
             and project = "\<lparr>obj_class = ProjectClass,
                  obj_dict = [(''client'', PClient example_client), (''id'', PJson (JInt 3))]\<rparr>"
             and ident = "PJson (JInt 3)" and c = example_client]
  by (simp add: ex_defs run_defs resource_defs str_int_3)

end
